theory Spec2Isabelle
  imports Complex_Main
begin

section \<open>The Laplace distribution and its log score (examples/user-guide/content/5-dev.ipynb)\<close>

text \<open>
  The notebook defines two classes, \<open>Laplace\<close> (a regression distribution wrapping
  \<open>scipy.stats.laplace\<close>) and \<open>LaplaceLogScore\<close> (its log score). The model below follows the
  final cell that defines both ("Putting it all together"), and keeps the first version of
  \<open>LaplaceLogScore.d_score\<close> beside it.

  The internal parameters are the scalar case of the code: \<open>params\<close> is an array of two finite
  numbers, and numpy broadcasts them against the observation vector \<open>Y\<close>.
\<close>

subsection \<open>numpy's floating-point numbers\<close>

text \<open>
  A float64 is a finite number, an infinity or nan. Finite values are modelled as reals, and
  what decides the behaviour of the code at the ends of the range is written out: a result
  whose magnitude reaches \<open>2 ^ 1024\<close> is an infinity (\<open>fl\<close>), and \<open>np.exp\<close> returns \<open>0.0\<close> where
  the exponential lies below half of the smallest subnormal number, \<open>2 ^ -1075\<close> (an argument
  below about \<open>-745.13\<close>; the overflow starts at about \<open>709.78\<close>). The rounding of a result
  inside the range is not modelled. The two zeros are one value \<open>Fin 0\<close>; as a divisor it is
  the positive zero, which is the only zero the code divides by (an underflowed \<open>np.exp\<close>).
\<close>

datatype npfloat = Fin real | PInf | NInf | NaN

definition fl :: "real \<Rightarrow> npfloat" where
  "fl x = (if 2 ^ 1024 \<le> x then PInf else if x \<le> - (2 ^ 1024) then NInf else Fin x)"

definition np_exp :: "real \<Rightarrow> npfloat" where
  "np_exp x = (if exp x < 1 / 2 ^ 1075 then Fin 0 else fl (exp x))"

text \<open>\<open>np.log\<close>: minus infinity at zero, nan below zero (each with a warning, not an exception).\<close>

definition np_log :: "real \<Rightarrow> npfloat" where
  "np_log x = (if 0 < x then Fin (ln x) else if x = 0 then NInf else NaN)"

fun np_log_f :: "npfloat \<Rightarrow> npfloat" where
  "np_log_f (Fin x) = np_log x"
| "np_log_f PInf = PInf"
| "np_log_f NInf = NaN"
| "np_log_f NaN = NaN"

fun np_pos :: "npfloat \<Rightarrow> bool" where
  "np_pos (Fin x) = (0 < x)"
| "np_pos PInf = True"
| "np_pos NInf = False"
| "np_pos NaN = False"

fun np_nonneg :: "npfloat \<Rightarrow> bool" where
  "np_nonneg (Fin x) = (0 \<le> x)"
| "np_nonneg PInf = True"
| "np_nonneg NInf = False"
| "np_nonneg NaN = False"

fun np_is_neg :: "npfloat \<Rightarrow> bool" where
  "np_is_neg (Fin x) = (x < 0)"
| "np_is_neg PInf = False"
| "np_is_neg NInf = True"
| "np_is_neg NaN = False"

fun np_neg :: "npfloat \<Rightarrow> npfloat" where
  "np_neg (Fin x) = Fin (- x)"
| "np_neg PInf = NInf"
| "np_neg NInf = PInf"
| "np_neg NaN = NaN"

fun np_abs :: "npfloat \<Rightarrow> npfloat" where
  "np_abs (Fin x) = Fin \<bar>x\<bar>"
| "np_abs PInf = PInf"
| "np_abs NInf = PInf"
| "np_abs NaN = NaN"

fun np_sign :: "npfloat \<Rightarrow> npfloat" where
  "np_sign (Fin x) = Fin (sgn x)"
| "np_sign PInf = Fin 1"
| "np_sign NInf = Fin (- 1)"
| "np_sign NaN = NaN"

fun np_add :: "npfloat \<Rightarrow> npfloat \<Rightarrow> npfloat" where
  "np_add (Fin x) (Fin y) = fl (x + y)"
| "np_add NaN b = NaN"
| "np_add a NaN = NaN"
| "np_add PInf NInf = NaN"
| "np_add NInf PInf = NaN"
| "np_add PInf b = PInf"
| "np_add NInf b = NInf"
| "np_add a PInf = PInf"
| "np_add a NInf = NInf"

definition np_sub :: "npfloat \<Rightarrow> npfloat \<Rightarrow> npfloat" where
  "np_sub a b = np_add a (np_neg b)"

fun np_mul :: "npfloat \<Rightarrow> npfloat \<Rightarrow> npfloat" where
  "np_mul (Fin x) (Fin y) = fl (x * y)"
| "np_mul NaN b = NaN"
| "np_mul a NaN = NaN"
| "np_mul a b =
     (if a = Fin 0 \<or> b = Fin 0 then NaN
      else if np_is_neg a = np_is_neg b then PInf else NInf)"

fun np_div :: "npfloat \<Rightarrow> npfloat \<Rightarrow> npfloat" where
  "np_div (Fin x) (Fin y) =
     (if y = 0 then (if x = 0 then NaN else if 0 < x then PInf else NInf)
      else fl (x / y))"
| "np_div NaN b = NaN"
| "np_div a NaN = NaN"
| "np_div (Fin x) b = Fin 0"
| "np_div a (Fin y) = (if np_is_neg a = (y < 0) then PInf else NInf)"
| "np_div a b = NaN"

subsection \<open>Errors\<close>

datatype pyerror =
    IndexError
  | AttributeError
  | EstimationError
  | LibraryError string

subsection \<open>The frozen scipy distribution\<close>

text \<open>
  \<open>dist(loc=..., scale=...)\<close> freezes \<open>scipy.stats.laplace\<close> at a location and a scale. scipy is
  not part of the repository; of the frozen object the model keeps the two arguments and what
  its methods \<open>logpdf\<close> and \<open>rvs\<close> do with them.

  \<open>logpdf\<close> is nan unless the scale is positive; else it is the log density of the standard
  Laplace distribution, \<open>log(0.5) - |z|\<close>, at \<open>z = (x - loc) / scale\<close>, minus \<open>log(scale)\<close>: the
  logarithm of the density \<open>1/(2b) * exp (- |x - mu| / b)\<close> that the notebook states.
\<close>

record frozen =
  f_loc :: real
  f_scale :: npfloat

definition logpdf :: "frozen \<Rightarrow> real \<Rightarrow> npfloat" where
  "logpdf d x =
     (if np_pos (f_scale d)
      then np_sub (np_sub (Fin (- ln 2)) (np_abs (np_div (fl (x - f_loc d)) (f_scale d))))
                  (np_log_f (f_scale d))
      else NaN)"

subsection \<open>class Laplace\<close>

text \<open>
  The instance attributes set by \<open>__init__\<close>. The attribute \<open>_params\<close> is the field
  \<open>internal_params\<close> and \<open>dist\<close> is the field \<open>dist_frozen\<close> (Isabelle does not take a leading
  underscore, and \<open>dist\<close> is the distance of a metric space).
\<close>

record laplace =
  internal_params :: "real list"
  loc :: real
  logscale :: real
  scale :: npfloat
  dist_frozen :: frozen

definition n_params :: nat where
  "n_params = 2"

text \<open>\<open>params[0]\<close> and \<open>params[1]\<close> raise IndexError on an array that is too short.\<close>

definition Laplace_init :: "real list \<Rightarrow> pyerror + laplace" where
  "Laplace_init params =
     (if length params < 1 then Inl IndexError
      else if length params < 2 then Inl IndexError
      else Inr \<lparr> internal_params = params,
                 loc = params ! 0,
                 logscale = params ! 1,
                 scale = np_exp (params ! 1),
                 dist_frozen = \<lparr> f_loc = params ! 0, f_scale = np_exp (params ! 1) \<rparr> \<rparr>)"

text \<open>The property \<open>params\<close>: the dictionary \<open>{'loc': self.loc, 'scale': self.scale}\<close>.\<close>

definition params :: "laplace \<Rightarrow> (string \<rightharpoonup> npfloat)" where
  "params L = [''loc'' \<mapsto> Fin (loc L), ''scale'' \<mapsto> scale L]"

subsection \<open>Laplace.fit\<close>

text \<open>
  \<open>fit\<close> hands the observations to \<open>scipy.stats.laplace.fit\<close> and takes the logarithm of the
  scale it returns. The estimator belongs to scipy and is a parameter \<open>est\<close> of the model: it
  returns a location and a scale, or raises an exception of its own (named by a string), which
  \<open>fit\<close> does not catch.
\<close>

definition fit :: "(real list \<Rightarrow> string + real \<times> real) \<Rightarrow> real list \<Rightarrow> pyerror + npfloat list" where
  "fit est Y =
     (case est Y of
        Inl e \<Rightarrow> Inl (LibraryError e)
      | Inr (m, s) \<Rightarrow> Inr [Fin m, np_log s])"

text \<open>
  An estimator to run \<open>fit\<close> with: the maximum-likelihood estimate of a Laplace sample in
  closed form (the sample median and the mean absolute deviation from it), which is what
  \<open>scipy.stats.laplace.fit\<close> computes. It stands for the library in concrete evaluations only.
\<close>

definition median :: "real list \<Rightarrow> real" where
  "median Y =
     (let s = sort Y; n = length Y
      in if even n then (s ! (n div 2 - 1) + s ! (n div 2)) / 2 else s ! (n div 2))"

definition laplace_mle :: "real list \<Rightarrow> string + real \<times> real" where
  "laplace_mle Y =
     (if Y = [] then Inl ''ValueError''
      else let m = median Y in Inr (m, (\<Sum>y\<leftarrow>Y. \<bar>y - m\<bar>) / real (length Y)))"

subsection \<open>Laplace.sample\<close>

text \<open>
  \<open>self.dist.rvs()\<close> is called without a \<open>random_state\<close>, so scipy draws from numpy's global
  generator. The global generator is part of the state of the process: it is modelled by the
  sequence of standard Laplace variates it is going to produce, and a draw takes the first one
  and shifts the sequence.

  scipy's \<open>rvs\<close> raises ValueError unless \<open>scale >= 0\<close>, returns \<open>loc\<close> without drawing when the
  scale is zero, and returns \<open>z * scale + loc\<close> for a standard variate \<open>z\<close> otherwise.
  \<open>sample\<close> is the list comprehension over \<open>range(m)\<close>, which is empty for \<open>m \<le> 0\<close>; an
  exception of the first call ends it.
\<close>

record world =
  np_random :: "nat \<Rightarrow> real"

definition rvs :: "frozen \<Rightarrow> world \<Rightarrow> pyerror + npfloat \<times> world" where
  "rvs d w =
     (if \<not> np_nonneg (f_scale d) then Inl (LibraryError ''ValueError'')
      else if f_scale d = Fin 0 then Inr (Fin (f_loc d), w)
      else Inr (np_add (np_mul (Fin (np_random w 0)) (f_scale d)) (Fin (f_loc d)),
                w\<lparr> np_random := \<lambda>i. np_random w (Suc i) \<rparr>))"

fun draws :: "frozen \<Rightarrow> nat \<Rightarrow> world \<Rightarrow> pyerror + npfloat list \<times> world" where
  "draws d 0 w = Inr ([], w)"
| "draws d (Suc n) w =
     (case rvs d w of
        Inl e \<Rightarrow> Inl e
      | Inr (x, w') \<Rightarrow>
          (case draws d n w' of
             Inl e \<Rightarrow> Inl e
           | Inr (xs, w'') \<Rightarrow> Inr (x # xs, w'')))"

definition sample :: "laplace \<Rightarrow> int \<Rightarrow> world \<Rightarrow> pyerror + npfloat list \<times> world" where
  "sample L m w = draws (dist_frozen L) (nat m) w"

subsection \<open>class LaplaceLogScore\<close>

text \<open>
  The class is mixed into the distribution, so its methods read the attributes of the Laplace
  object. \<open>score\<close> is \<open>-self.dist.logpdf(Y)\<close>. \<open>d_score\<close> fills a matrix of zeros column by
  column; both versions of the notebook read \<open>self.logscale\<close> where they subtract the
  observation, and the final version has a minus sign in front of the first column.
\<close>

definition score :: "laplace \<Rightarrow> real list \<Rightarrow> npfloat list" where
  "score L Y = map (\<lambda>y. np_neg (logpdf (dist_frozen L) y)) Y"

text \<open>\<open>np.zeros((n, k))\<close> and the assignment \<open>D[:, j] = vs\<close>.\<close>

definition zeros :: "nat \<Rightarrow> nat \<Rightarrow> npfloat list list" where
  "zeros n k = replicate n (replicate k (Fin 0))"

definition assign_col :: "nat \<Rightarrow> npfloat list \<Rightarrow> npfloat list list \<Rightarrow> npfloat list list" where
  "assign_col j vs D = map2 (\<lambda>row v. row[j := v]) D vs"

text \<open>The first version of \<open>d_score\<close> (cell 3 of the notebook).\<close>

definition d_score_first :: "laplace \<Rightarrow> real list \<Rightarrow> npfloat list list" where
  "d_score_first L Y =
     (let D0 = zeros (length Y) 2;
          D1 = assign_col 0
                 (map (\<lambda>y. np_div (np_sign (fl (logscale L - y))) (scale L)) Y) D0;
          D2 = assign_col 1
                 (map (\<lambda>y. np_sub (Fin 1) (np_div (np_abs (fl (logscale L - y))) (scale L))) Y) D1
      in D2)"

text \<open>The final version of \<open>d_score\<close> (cell 4, "Putting it all together").\<close>

definition d_score :: "laplace \<Rightarrow> real list \<Rightarrow> npfloat list list" where
  "d_score L Y =
     (let D0 = zeros (length Y) 2;
          D1 = assign_col 0
                 (map (\<lambda>y. np_div (np_neg (np_sign (fl (logscale L - y)))) (scale L)) Y) D0;
          D2 = assign_col 1
                 (map (\<lambda>y. np_sub (Fin 1) (np_div (np_abs (fl (logscale L - y))) (scale L))) Y) D1
      in D2)"

text \<open>
  The score that \<open>d_score\<close> differentiates, as a function of the two internal parameters over
  the reals: the negative logarithm of the density \<open>1/(2b) * exp (- |y - mu| / b)\<close> of the
  notebook at \<open>b = exp lb\<close>. The derivatives that the comment in \<open>d_score\<close> names (\<open>dS/dmu\<close> and
  \<open>dS/d(log(b))\<close>) are the derivatives of this function.
\<close>

definition nll :: "real \<Rightarrow> real \<Rightarrow> real \<Rightarrow> real" where
  "nll mu lb y = - ln (1 / (2 * exp lb) * exp (- \<bar>y - mu\<bar> / exp lb))"

subsection \<open>Attribute access on a Laplace object\<close>

text \<open>
  Python looks an attribute up in the instance and its classes first and calls
  \<open>__getattr__\<close> only when that lookup finds nothing. The attributes that the base classes of
  \<open>Laplace\<close> (ngboost's \<open>RegressionDistn\<close>, \<open>object\<close>) and the frozen scipy object define are not
  in the notebook: they are the parameters \<open>inherited\<close> and \<open>scipy_attrs\<close>.
\<close>

datatype pyval =
    PyNone
  | PyInt int
  | PyFloat npfloat
  | PyArray "real list"
  | PyDict "(string \<times> npfloat) list"
  | PyFrozen frozen
  | PyMember string string

definition instance_dict :: "laplace \<Rightarrow> (string \<rightharpoonup> pyval)" where
  "instance_dict L =
     [''_params'' \<mapsto> PyArray (internal_params L),
      ''loc'' \<mapsto> PyFloat (Fin (loc L)),
      ''logscale'' \<mapsto> PyFloat (Fin (logscale L)),
      ''scale'' \<mapsto> PyFloat (scale L),
      ''dist'' \<mapsto> PyFrozen (dist_frozen L)]"

definition class_dict :: "laplace \<Rightarrow> (string \<rightharpoonup> pyval)" where
  "class_dict L =
     [''n_params'' \<mapsto> PyInt 2,
      ''scores'' \<mapsto> PyMember ''Laplace'' ''scores'',
      ''__init__'' \<mapsto> PyMember ''Laplace'' ''__init__'',
      ''fit'' \<mapsto> PyMember ''Laplace'' ''fit'',
      ''sample'' \<mapsto> PyMember ''Laplace'' ''sample'',
      ''__getattr__'' \<mapsto> PyMember ''Laplace'' ''__getattr__'',
      ''params'' \<mapsto> PyDict [(''loc'', Fin (loc L)), (''scale'', scale L)]]"

text \<open>
  \<open>__getattr__\<close>: \<open>if name in dir(self.dist): return getattr(self.dist, name)\<close>, else
  \<open>return None\<close>.
\<close>

definition Laplace_getattr :: "(frozen \<Rightarrow> string \<rightharpoonup> pyval) \<Rightarrow> laplace \<Rightarrow> string \<Rightarrow> pyval" where
  "Laplace_getattr scipy_attrs L name =
     (case scipy_attrs (dist_frozen L) name of
        Some v \<Rightarrow> v
      | None \<Rightarrow> PyNone)"

definition getattribute ::
  "(string \<rightharpoonup> pyval) \<Rightarrow> (frozen \<Rightarrow> string \<rightharpoonup> pyval) \<Rightarrow> laplace \<Rightarrow> string \<Rightarrow> pyerror + pyval" where
  "getattribute inherited scipy_attrs L name =
     (case instance_dict L name of
        Some v \<Rightarrow> Inr v
      | None \<Rightarrow>
          (case class_dict L name of
             Some v \<Rightarrow> Inr v
           | None \<Rightarrow>
               (case inherited name of
                  Some v \<Rightarrow> Inr v
                | None \<Rightarrow> Inr (Laplace_getattr scipy_attrs L name))))"

subsection \<open>The fused evaluator\<close>


section \<open>Properties\<close>

subsection \<open>The range of the floating-point numbers\<close>

lemma fl_Fin: "\<bar>x\<bar> < 2 ^ 1024 \<Longrightarrow> fl x = Fin x"
  by (auto simp add: fl_def)

lemma fl_small [simp]: "fl 0 = Fin 0" "fl 1 = Fin 1" "fl (- 1) = Fin (- 1)"
  by (simp_all add: fl_def)

lemma fl_sgn [simp]: "fl (sgn x) = Fin (sgn x)"
  by (rule fl_Fin) (simp add: sgn_real_def)

lemma np_exp_in_range:
  assumes "1 / 2 ^ 1075 \<le> exp x" and "exp x < 2 ^ 1024"
  shows "np_exp x = Fin (exp x)"
  using assms by (simp add: np_exp_def fl_Fin)

lemma np_exp_0 [simp]: "np_exp 0 = Fin 1"
  by (simp add: np_exp_def)

lemma exp_1000_large: "2 ^ 1075 < exp (1000::real)"
proof -
  have "(3 / 2 :: real) \<le> exp (1 / 2)"
    using exp_ge_add_one_self [of "1 / 2 :: real"] by simp
  then have "(3 / 2 :: real) ^ 2000 \<le> exp (1 / 2) ^ 2000"
    by (intro power_mono) simp_all
  also have "exp (1 / 2 :: real) ^ 2000 = exp 1000"
    using exp_of_nat_mult [of 2000 "1 / 2 :: real"] by simp
  finally have "(3 / 2 :: real) ^ 2000 \<le> exp 1000" .
  moreover have "(2::real) ^ 43 < (3 / 2) ^ 80"
    by (simp add: power_divide)
  then have "((2::real) ^ 43) ^ 25 < ((3 / 2) ^ 80) ^ 25"
    by (intro power_strict_mono) simp_all
  then have "(2::real) ^ 1075 < (3 / 2) ^ 2000"
    by (simp only: power_mult [symmetric]) simp
  ultimately show ?thesis by simp
qed

lemma np_exp_underflow: "np_exp (- 1000) = Fin 0"
proof -
  have "exp (- 1000 :: real) = 1 / exp 1000"
    by (simp add: exp_minus inverse_eq_divide)
  also have "\<dots> < 1 / 2 ^ 1075"
    using exp_1000_large by (intro divide_strict_left_mono) simp_all
  finally show ?thesis by (simp add: np_exp_def)
qed

lemma np_pos_np_exp: "np_pos (np_exp x) = (1 / 2 ^ 1075 \<le> exp x)"
  by (auto simp add: np_exp_def fl_def not_less)

lemma np_nonneg_np_exp: "np_nonneg (np_exp x)"
  by (auto simp add: np_exp_def fl_def)

subsection \<open>Construction\<close>

lemma Laplace_init_two:
  "Laplace_init [a, b] =
     Inr \<lparr> internal_params = [a, b], loc = a, logscale = b, scale = np_exp b,
           dist_frozen = \<lparr> f_loc = a, f_scale = np_exp b \<rparr> \<rparr>"
  by (simp add: Laplace_init_def)

lemma Laplace_origin:
  "Laplace_init [0, 0] =
     Inr \<lparr> internal_params = [0, 0], loc = 0, logscale = 0, scale = Fin 1,
           dist_frozen = \<lparr> f_loc = 0, f_scale = Fin 1 \<rparr> \<rparr>"
  by (simp add: Laplace_init_two)

subsection \<open>The score and its derivatives\<close>

lemma nll_eq: "nll mu lb y = ln 2 + \<bar>y - mu\<bar> / exp lb + lb"
proof -
  have "ln (1 / (2 * exp lb) * exp (- \<bar>y - mu\<bar> / exp lb))
          = ln (1 / (2 * exp lb)) + ln (exp (- \<bar>y - mu\<bar> / exp lb))"
    by (rule ln_mult_pos) simp_all
  also have "ln (1 / (2 * exp lb)) = - (ln 2 + lb)"
    by (simp add: ln_div ln_mult)
  finally show ?thesis
    by (simp add: nll_def)
qed



lemma score_underflow:
  assumes "exp lb < 1 / 2 ^ 1075" and "Laplace_init [mu, lb] = Inr L"
  shows "score L Y = map (\<lambda>y. NaN) Y"
  using assms by (auto simp add: Laplace_init_two score_def logpdf_def np_exp_def)

lemma nll_deriv_loc_above:
  assumes "y < mu"
  shows "((\<lambda>m. nll m lb y) has_real_derivative 1 / exp lb) (at mu)"
proof (rule has_field_derivative_transform_within_open)
  show "((\<lambda>m. ln 2 + (m - y) / exp lb + lb) has_real_derivative 1 / exp lb) (at mu)"
    by (auto intro!: derivative_eq_intros)
  show "open {y<..}" by simp
  show "mu \<in> {y<..}" using assms by simp
  show "ln 2 + (m - y) / exp lb + lb = nll m lb y" if "m \<in> {y<..}" for m
    using that by (simp add: nll_eq)
qed

lemma nll_deriv_loc_below:
  assumes "mu < y"
  shows "((\<lambda>m. nll m lb y) has_real_derivative - 1 / exp lb) (at mu)"
proof (rule has_field_derivative_transform_within_open)
  show "((\<lambda>m. ln 2 + (y - m) / exp lb + lb) has_real_derivative - 1 / exp lb) (at mu)"
    by (auto intro!: derivative_eq_intros)
  show "open {..<y}" by simp
  show "mu \<in> {..<y}" using assms by simp
  show "ln 2 + (y - m) / exp lb + lb = nll m lb y" if "m \<in> {..<y}" for m
    using that by (simp add: nll_eq)
qed

lemma nll_deriv_loc:
  assumes "y \<noteq> mu"
  shows "((\<lambda>m. nll m lb y) has_real_derivative sgn (mu - y) / exp lb) (at mu)"
proof (cases "y < mu")
  case True
  then show ?thesis using nll_deriv_loc_above [OF True, of lb] by simp
next
  case False
  with assms have lt: "mu < y" by simp
  then show ?thesis using nll_deriv_loc_below [OF lt, of lb] by simp
qed

lemma nll_deriv_logscale:
  "((\<lambda>l. nll mu l y) has_real_derivative 1 - \<bar>y - mu\<bar> / exp lb) (at lb)"
proof -
  have "((\<lambda>l. ln 2 + \<bar>y - mu\<bar> * exp (- l) + l) has_real_derivative
          \<bar>y - mu\<bar> * (exp (- lb) * (- 1)) + 1) (at lb)"
    by (auto intro!: derivative_eq_intros)
  moreover have "\<bar>y - mu\<bar> * exp (- l) = \<bar>y - mu\<bar> / exp l" for l
    by (simp only: exp_minus divide_inverse)
  ultimately have "((\<lambda>l. ln 2 + \<bar>y - mu\<bar> / exp l + l) has_real_derivative
          1 - \<bar>y - mu\<bar> / exp lb) (at lb)"
    by simp
  then show ?thesis
    by (simp only: nll_eq)
qed

subsection \<open>The gradient matrix, row by row\<close>

lemma zeros_map: "zeros (length Y) k = map (\<lambda>y. replicate k (Fin 0)) Y"
  by (simp add: zeros_def map_replicate_const)

lemma assign_col_map:
  "assign_col j (map f Y) (map g Y) = map (\<lambda>y. (g y)[j := f y]) Y"
  by (induction Y) (simp_all add: assign_col_def)

lemma d_score_rows:
  "d_score L Y =
     map (\<lambda>y. [np_div (np_neg (np_sign (fl (logscale L - y)))) (scale L),
                np_sub (Fin 1) (np_div (np_abs (fl (logscale L - y))) (scale L))]) Y"
  by (simp add: d_score_def Let_def zeros_map assign_col_map numeral_2_eq_2)

lemma d_score_first_rows:
  "d_score_first L Y =
     map (\<lambda>y. [np_div (np_sign (fl (logscale L - y))) (scale L),
                np_sub (Fin 1) (np_div (np_abs (fl (logscale L - y))) (scale L))]) Y"
  by (simp add: d_score_first_def Let_def zeros_map assign_col_map numeral_2_eq_2)

lemma d_score_shape:
  "length (d_score L Y) = length Y \<and> list_all (\<lambda>row. length row = n_params) (d_score L Y)"
  by (simp add: d_score_rows n_params_def list_all_iff)

lemma np_sign_fl [simp]: "np_sign (fl x) = Fin (sgn x)"
  by (simp add: fl_def sgn_real_def)

lemma np_abs_fl [simp]: "np_abs (fl x) = fl \<bar>x\<bar>"
  by (auto simp add: fl_def)

lemma np_div_fl_1 [simp]: "np_div (fl x) (Fin 1) = fl x"
  by (auto simp add: fl_def)

lemma fl_unit: "\<bar>x\<bar> \<le> 1 \<Longrightarrow> fl x = Fin x"
  by (rule fl_Fin) simp

subsection \<open>The gradient of the log score\<close>

text \<open>
  C1. At the internal parameters \<open>(0, 0)\<close>, that is \<open>loc = 0\<close> and \<open>scale = 1\<close>, the loss of the
  observation \<open>0\<close> is \<open>ln 2\<close>. The derivative of the score in \<open>loc\<close> is \<open>sign(loc - Y) / scale\<close>,
  negative for an observation above \<open>loc\<close>: \<open>-1\<close> for the observation \<open>1\<close>. The final version of
  \<open>d_score\<close> has the opposite sign in its first column, \<open>sign(Y)\<close> for every observation and
  \<open>+1\<close> for the observation \<open>1\<close>; the first version of the notebook has \<open>-1\<close> there.
\<close>

theorem d_score_loc_sign_at_origin:
  "\<exists>L. Laplace_init [0, 0] = Inr L
      \<and> score L [0] = [Fin (ln 2)]
      \<and> d_score L [1] = [[Fin 1, Fin 0]]
      \<and> (\<forall>y. d_score L [y] = [[Fin (sgn y), np_sub (Fin 1) (fl \<bar>y\<bar>)]])
      \<and> d_score_first L [1] = [[Fin (- 1), Fin 0]]
      \<and> np_div (np_sign (fl (loc L - 1))) (scale L) = Fin (- 1)
      \<and> ((\<lambda>m. nll m 0 1) has_real_derivative - 1) (at 0)"
proof -
  have "((\<lambda>m. nll m 0 1) has_real_derivative - 1) (at 0)"
    using nll_deriv_loc [of 1 0 0] by simp
  moreover have "\<bar>ln (2::real)\<bar> \<le> 1"
    using ln_2_less_1 by simp
  then have "fl (ln 2) = Fin (ln 2)" "fl (- ln 2) = Fin (- ln 2)"
    by (simp_all add: fl_unit)
  moreover have "np_div (Fin (sgn y)) (Fin 1) = Fin (sgn y)" for y :: real
    by simp
  ultimately show ?thesis
    by (simp add: Laplace_origin score_def logpdf_def d_score_rows d_score_first_rows
          np_sub_def np_log_def)
qed

text \<open>
  C2. \<open>d_score\<close> returns one row of two entries for each observation. The derivative of the
  score in \<open>log(scale)\<close> is \<open>1 - |Y - loc| / scale\<close>; the second column of \<open>d_score\<close> subtracts
  the observation from \<open>logscale\<close>, not from \<open>loc\<close>. At the internal parameters \<open>(3, 0)\<close> and
  the observation \<open>1\<close> the derivative is \<open>-1\<close> and the second column of \<open>d_score\<close> is \<open>0\<close>.
\<close>

theorem d_score_logscale_column_reads_logscale:
  "\<exists>L. Laplace_init [3, 0] = Inr L
      \<and> length (d_score L [1]) = 1
      \<and> d_score L [1] = [[Fin 1, Fin 0]]
      \<and> np_sub (Fin 1) (np_div (np_abs (fl (1 - loc L))) (scale L)) = Fin (- 1)
      \<and> ((\<lambda>l. nll 3 l 1) has_real_derivative - 1) (at 0)"
proof -
  have "((\<lambda>l. nll 3 l 1) has_real_derivative - 1) (at 0)"
    using nll_deriv_logscale [of 3 1 0] by simp
  moreover have "fl 2 = Fin 2"
    by (simp add: fl_def)
  ultimately show ?thesis
    by (simp add: Laplace_init_two d_score_rows np_sub_def)
qed

subsection \<open>Construction and the user-facing parameters\<close>

text \<open>
  C3. Round trip of the reparametrization: for every real \<open>mu\<close> and every positive \<open>b\<close> of the
  floating-point range (the positive finite float64 numbers lie between \<open>2 ^ -1074\<close> and
  \<open>2 ^ 1024\<close>), the Laplace object built from the internal vector \<open>(mu, log b)\<close> reports
  \<open>loc = mu\<close> and \<open>scale = b\<close> in its \<open>params\<close> dictionary, and the dictionary has no other key.
\<close>

theorem params_round_trip:
  assumes "1 / 2 ^ 1075 \<le> b" and "b < 2 ^ 1024"
  shows "\<exists>L. Laplace_init [mu, ln b] = Inr L
           \<and> params L ''loc'' = Some (Fin mu)
           \<and> params L ''scale'' = Some (Fin b)
           \<and> dom (params L) = {''loc'', ''scale''}"
proof -
  have "(0::real) < 1 / 2 ^ 1075" by simp
  then have "0 < b" using assms(1) by (rule less_le_trans)
  then have "exp (ln b) = b" by simp
  with assms have "np_exp (ln b) = Fin b"
    using np_exp_in_range [of "ln b"] by simp
  then show ?thesis
    by (auto simp add: Laplace_init_two params_def)
qed

theorem params_round_trip_witness:
  "(1 / 2 ^ 1075 \<le> (3::real)) \<and> (3::real) < 2 ^ 1024
     \<and> (\<exists>L. Laplace_init [- 2, ln 3] = Inr L
           \<and> params L ''loc'' = Some (Fin (- 2))
           \<and> params L ''scale'' = Some (Fin 3)
           \<and> dom (params L) = {''loc'', ''scale''})"
proof -
  have h1: "1 / 2 ^ 1075 \<le> (3::real)" by simp
  have h2: "(3::real) < 2 ^ 1024" by simp
  from h1 h2 params_round_trip [OF h1 h2, of "- 2"] show ?thesis by blast
qed

subsection \<open>The value of the score\<close>




subsection \<open>The invariant of the constructor\<close>

text \<open>
  C10. For every parameter vector of length 2 the constructor succeeds, stores the vector
  unchanged in \<open>_params\<close>, and sets \<open>scale = np.exp(params[1])\<close>, which the frozen scipy object
  receives with the location. The scale is never negative, and it is strictly positive
  exactly when \<open>np.exp\<close> does not underflow, that is when the exponential of \<open>params[1]\<close> is at
  least \<open>2 ^ -1075\<close>.
\<close>

theorem Laplace_init_scale:
  assumes "length ps = 2"
  shows "\<exists>L. Laplace_init ps = Inr L
           \<and> internal_params L = ps
           \<and> loc L = ps ! 0
           \<and> logscale L = ps ! 1
           \<and> scale L = np_exp (ps ! 1)
           \<and> np_nonneg (scale L)
           \<and> np_pos (scale L) = (1 / 2 ^ 1075 \<le> exp (ps ! 1))
           \<and> f_loc (dist_frozen L) = loc L
           \<and> f_scale (dist_frozen L) = scale L"
  using assms by (simp add: Laplace_init_def np_pos_np_exp np_nonneg_np_exp)

theorem Laplace_init_scale_witness:
  "length [5, 0 :: real] = 2
     \<and> (\<exists>L. Laplace_init [5, 0] = Inr L
           \<and> internal_params L = [5, 0]
           \<and> loc L = 5
           \<and> logscale L = 0
           \<and> scale L = Fin 1
           \<and> np_pos (scale L)
           \<and> f_loc (dist_frozen L) = loc L
           \<and> f_scale (dist_frozen L) = scale L)"
proof -
  have h: "length [5, 0 :: real] = 2" by simp
  from Laplace_init_scale [OF h] h show ?thesis
    by auto
qed

text \<open>
  At the internal parameters \<open>(0, -1000)\<close> the constructor succeeds with the scale \<open>0.0\<close>, which
  is not strictly positive.
\<close>

theorem Laplace_init_underflow_counterexample:
  "Laplace_init [0, - 1000] =
     Inr \<lparr> internal_params = [0, - 1000], loc = 0, logscale = - 1000, scale = Fin 0,
           dist_frozen = \<lparr> f_loc = 0, f_scale = Fin 0 \<rparr> \<rparr>
   \<and> \<not> np_pos (scale \<lparr> internal_params = [0, - 1000], loc = 0, logscale = - 1000,
                        scale = Fin 0, dist_frozen = \<lparr> f_loc = 0, f_scale = Fin 0 \<rparr> \<rparr>)"
  by (simp add: Laplace_init_two np_exp_underflow)

subsection \<open>Fitting the marginal distribution\<close>

lemma laplace_mle_constant: "laplace_mle [1, 1] = Inr (1, 0)"
  by (simp add: laplace_mle_def median_def)

lemma laplace_mle_spread: "laplace_mle [1, 3] = Inr (2, 1)"
  by (simp add: laplace_mle_def median_def)

lemma fit_propagates:
  assumes "est Y = Inl e"
  shows "fit est Y = Inl (LibraryError e)"
  using assms by (simp add: fit_def)

text \<open>
  C4. \<open>fit\<close> never raises an \<open>EstimationError\<close>. Whenever the scipy estimator returns a
  location \<open>m\<close> and a scale \<open>s\<close>, \<open>fit\<close> returns the array \<open>[m, np.log(s)]\<close>: the logarithm
  of a positive scale, minus infinity for the scale \<open>0\<close> of degenerate observations, nan for
  a negative one.
\<close>

theorem fit_returns_log_scale:
  assumes "est Y = Inr (m, s)"
  shows "fit est Y = Inr [Fin m, np_log s] \<and> (\<forall>Y'. fit est Y' \<noteq> Inl EstimationError)"
  using assms by (auto simp add: fit_def split: sum.splits)

theorem fit_returns_log_scale_witness:
  "laplace_mle [1, 3] = Inr (2, 1)
     \<and> fit laplace_mle [1, 3] = Inr [Fin 2, Fin 0]
     \<and> fit laplace_mle [1, 1] \<noteq> Inl EstimationError"
proof -
  have h: "laplace_mle [1, 3] = Inr (2, 1)" by (rule laplace_mle_spread)
  show ?thesis using h fit_returns_log_scale [of laplace_mle "[1, 3]" 2 1] by (simp add: np_log_def)
qed

text \<open>
  Observations of zero variance: the estimate is \<open>(1, 0)\<close>, and \<open>fit\<close> returns \<open>[1, -inf]\<close>
  without raising.
\<close>

theorem fit_zero_variance_counterexample:
  "fit laplace_mle [1, 1] = Inr [Fin 1, NInf] \<and> fit laplace_mle [1, 1] \<noteq> Inl EstimationError"
  by (simp add: fit_def laplace_mle_constant np_log_def)

subsection \<open>Sampling\<close>

lemma draws_zero_scale:
  assumes "f_scale d = Fin 0"
  shows "draws d n w = Inr (replicate n (Fin (f_loc d)), w)"
  using assms by (induction n) (simp_all add: rvs_def)

lemma draws_eq:
  assumes "np_nonneg (f_scale d)" and "f_scale d \<noteq> Fin 0"
  shows "draws d n w =
     Inr (map (\<lambda>i. np_add (np_mul (Fin (np_random w i)) (f_scale d)) (Fin (f_loc d))) [0..<n],
          w\<lparr> np_random := \<lambda>i. np_random w (i + n) \<rparr>)"
proof (induction n arbitrary: w)
  case 0
  show ?case by simp
next
  case (Suc n)
  have "map (\<lambda>i. np_add (np_mul (Fin (np_random w i)) (f_scale d)) (Fin (f_loc d))) [0..<Suc n] =
          np_add (np_mul (Fin (np_random w 0)) (f_scale d)) (Fin (f_loc d)) #
          map (\<lambda>i. np_add (np_mul (Fin (np_random w (Suc i))) (f_scale d)) (Fin (f_loc d))) [0..<n]"
    by (simp only: upt_conv_Cons [of 0 "Suc n"] map_Suc_upt [symmetric] list.map map_map o_def)
  then show ?case
    using assms by (simp add: Suc.IH rvs_def del: upt_Suc)
qed

text \<open>
  C6. \<open>sample(m)\<close> takes no generator. On a Laplace object that the constructor has built it
  reads the next \<open>m\<close> standard variates of the global generator, returns \<open>z * scale + loc\<close> for
  each of them in order, and leaves the global generator advanced by \<open>m\<close> draws; when the scale
  has underflowed to zero, scipy returns \<open>loc\<close> each time and draws nothing.
\<close>

theorem sample_draws_from_global_state:
  assumes "Laplace_init ps = Inr L"
  shows "sample L m w =
     (if scale L = Fin 0 then Inr (replicate (nat m) (Fin (loc L)), w)
      else Inr (map (\<lambda>i. np_add (np_mul (Fin (np_random w i)) (scale L)) (Fin (loc L)))
                  [0..<nat m],
                w\<lparr> np_random := \<lambda>i. np_random w (i + nat m) \<rparr>))"
proof -
  from assms have L: "dist_frozen L = \<lparr> f_loc = loc L, f_scale = scale L \<rparr>"
    and s: "scale L = np_exp (logscale L)"
    by (auto simp add: Laplace_init_def split: if_splits)
  have "np_nonneg (scale L)"
    by (simp add: s np_nonneg_np_exp)
  then show ?thesis
    by (simp add: sample_def L draws_zero_scale draws_eq)
qed

theorem sample_draws_from_global_state_witness:
  "Laplace_init [2, 0] =
     Inr \<lparr> internal_params = [2, 0], loc = 2, logscale = 0, scale = Fin 1,
           dist_frozen = \<lparr> f_loc = 2, f_scale = Fin 1 \<rparr> \<rparr>
   \<and> sample \<lparr> internal_params = [2, 0], loc = 2, logscale = 0, scale = Fin 1,
              dist_frozen = \<lparr> f_loc = 2, f_scale = Fin 1 \<rparr> \<rparr> 2 \<lparr> np_random = real \<rparr>
       = Inr ([Fin 2, Fin 3], \<lparr> np_random = \<lambda>i. real (i + 2) \<rparr>)"
proof -
  have h: "Laplace_init [2, 0] =
     Inr \<lparr> internal_params = [2, 0], loc = 2, logscale = 0, scale = Fin 1,
           dist_frozen = \<lparr> f_loc = 2, f_scale = Fin 1 \<rparr> \<rparr>"
    by (simp add: Laplace_init_two)
  have n: "[0..<2] = [0, Suc 0]"
    by (simp add: numeral_2_eq_2 upt_rec)
  have f: "fl 2 = Fin 2" "fl 3 = Fin 3"
    by (simp_all add: fl_def)
  from sample_draws_from_global_state [OF h, of 2 "\<lparr> np_random = real \<rparr>"] h show ?thesis
    by (simp add: n f)
qed

text \<open>
  Two calls \<open>sample(1)\<close> on the same Laplace object, one after the other, return different
  arrays: nothing but the global generator, which the first call has advanced, feeds the
  second.
\<close>

theorem sample_twice_counterexample:
  "Laplace_init [0, 0] =
     Inr \<lparr> internal_params = [0, 0], loc = 0, logscale = 0, scale = Fin 1,
           dist_frozen = \<lparr> f_loc = 0, f_scale = Fin 1 \<rparr> \<rparr>
   \<and> sample \<lparr> internal_params = [0, 0], loc = 0, logscale = 0, scale = Fin 1,
              dist_frozen = \<lparr> f_loc = 0, f_scale = Fin 1 \<rparr> \<rparr> 1 \<lparr> np_random = real \<rparr>
       = Inr ([Fin 0], \<lparr> np_random = \<lambda>i. real (Suc i) \<rparr>)
   \<and> sample \<lparr> internal_params = [0, 0], loc = 0, logscale = 0, scale = Fin 1,
              dist_frozen = \<lparr> f_loc = 0, f_scale = Fin 1 \<rparr> \<rparr> 1
              \<lparr> np_random = \<lambda>i. real (Suc i) \<rparr>
       = Inr ([Fin 1], \<lparr> np_random = \<lambda>i. real (Suc (Suc i)) \<rparr>)"
  by (simp add: Laplace_origin sample_def rvs_def)

subsection \<open>Attribute access\<close>




text \<open>
  C9. An attribute name that neither the Laplace instance, nor its class, nor its base
  classes, nor the frozen scipy object defines evaluates to \<open>None\<close>; and no attribute access
  on a Laplace object raises \<open>AttributeError\<close>.
\<close>

theorem getattribute_unknown_is_None:
  assumes "name \<notin> dom (instance_dict L)"
    and "name \<notin> dom (class_dict L)"
    and "name \<notin> dom inherited"
    and "name \<notin> dom (scipy_attrs (dist_frozen L))"
  shows "getattribute inherited scipy_attrs L name = Inr PyNone
       \<and> (\<forall>n. getattribute inherited scipy_attrs L n \<noteq> Inl AttributeError)"
proof -
  from assms have "instance_dict L name = None" "class_dict L name = None"
    "inherited name = None" "scipy_attrs (dist_frozen L) name = None"
    by (simp_all add: domIff)
  then show ?thesis
    by (simp add: getattribute_def Laplace_getattr_def split: option.splits)
qed

theorem getattribute_unknown_is_None_witness:
  "\<exists>L. Laplace_init [0, 0] = Inr L
      \<and> ''mena'' \<notin> dom (instance_dict L)
      \<and> ''mena'' \<notin> dom (class_dict L)
      \<and> ''mena'' \<notin> dom (Map.empty :: string \<rightharpoonup> pyval)
      \<and> ''mena'' \<notin> dom [''mean'' \<mapsto> PyFloat (Fin (f_loc (dist_frozen L)))]
      \<and> getattribute Map.empty (\<lambda>d. [''mean'' \<mapsto> PyFloat (Fin (f_loc d))]) L ''mena'' = Inr PyNone"
proof -
  define L where "L = \<lparr> internal_params = [0, 0], loc = 0, logscale = 0, scale = Fin 1,
           dist_frozen = \<lparr> f_loc = 0, f_scale = Fin 1 \<rparr> \<rparr>"
  have h1: "''mena'' \<notin> dom (instance_dict L)" by (simp add: instance_dict_def)
  have h2: "''mena'' \<notin> dom (class_dict L)" by (simp add: class_dict_def)
  have h3: "''mena'' \<notin> dom (Map.empty :: string \<rightharpoonup> pyval)" by simp
  have h4: "''mena'' \<notin> dom ((\<lambda>d. [''mean'' \<mapsto> PyFloat (Fin (f_loc d))]) (dist_frozen L))" by simp
  have "getattribute Map.empty (\<lambda>d. [''mean'' \<mapsto> PyFloat (Fin (f_loc d))]) L ''mena'' = Inr PyNone
      \<and> (\<forall>n. getattribute Map.empty (\<lambda>d. [''mean'' \<mapsto> PyFloat (Fin (f_loc d))]) L n
             \<noteq> Inl AttributeError)"
    using h1 h2 h3 h4
    by (rule getattribute_unknown_is_None
          [where scipy_attrs = "\<lambda>d. [''mean'' \<mapsto> PyFloat (Fin (f_loc d))]"])
  with h1 h2 h3 h4 show ?thesis
    unfolding L_def by (simp add: Laplace_origin)
qed

end
